theory Spec2Isabelle
  imports Main "HOL-Library.Word"
begin

section \<open>The result type of \<open>result.h\<close>\<close>

text \<open>
  \<open>result.h\<close> is a single C header: the enumeration \<open>result_t\<close>, the hook
  \<open>RESULT_ASSERT_FAIL_FUNCTION\<close>, the four macros \<open>ERR_GOTO\<close>, \<open>ERR_RET\<close>,
  \<open>ERR_RET_VOID\<close> and \<open>ERR_RET_RESULT\<close>, and the declaration of
  \<open>result_get_string\<close>.

  A C \<open>int\<close> is a 32-bit word, read as two's complement by \<open>sint\<close>. No macro
  of the header does arithmetic on one: they are only compared with \<open>0\<close> and with
  \<open>RESULT_OK\<close>.
\<close>

type_synonym c_int = "32 word"

text \<open>
  \<^verbatim>\<open>
  typedef enum result {
      RESULT_OK,
      RESULT_ERROR_ARGUMENT_INVALID,
      RESULT_ERROR_MEMORY_NOT_ENOUGH,
      RESULT_ERROR_HARDWARE_NO_DEVICE,
      RESULT_ERROR_HARDWARE_BUSY,
      RESULT_ERROR_HARDWARE_IO,
      RESULT_ERROR_OTHER,
      _RESULT_COUNT,
  } result_t;
  \<close>
  The last enumerator is \<open>_RESULT_COUNT\<close> in the header; a name cannot start with an
  underscore here, so it is \<open>RESULT_COUNT\<close> below.
\<close>

datatype result_t =
    RESULT_OK
  | RESULT_ERROR_ARGUMENT_INVALID
  | RESULT_ERROR_MEMORY_NOT_ENOUGH
  | RESULT_ERROR_HARDWARE_NO_DEVICE
  | RESULT_ERROR_HARDWARE_BUSY
  | RESULT_ERROR_HARDWARE_IO
  | RESULT_ERROR_OTHER
  | RESULT_COUNT

text \<open>The enumerators in the order of their declaration.\<close>

definition enumerators :: "result_t list" where
  "enumerators =
     [RESULT_OK, RESULT_ERROR_ARGUMENT_INVALID, RESULT_ERROR_MEMORY_NOT_ENOUGH,
      RESULT_ERROR_HARDWARE_NO_DEVICE, RESULT_ERROR_HARDWARE_BUSY,
      RESULT_ERROR_HARDWARE_IO, RESULT_ERROR_OTHER, RESULT_COUNT]"

text \<open>
  No enumerator of \<open>result_t\<close> has an initialiser, so C numbers them by position: the
  first is \<open>0\<close> and each next one is the previous plus one.
\<close>

fun position :: "'a \<Rightarrow> 'a list \<Rightarrow> nat" where
  "position x [] = 0"
| "position x (y # ys) = (if x = y then 0 else Suc (position x ys))"

definition enum_value :: "result_t \<Rightarrow> c_int" where
  "enum_value e = of_nat (position e enumerators)"

text \<open>
  The enumerators that \<open>_RESULT_COUNT\<close> counts: the ones declared before it
  (\<open>_RESULT_COUNT\<close> is documented as "Result options count").
\<close>

definition result_options :: "result_t list" where
  "result_options = take (unat (enum_value RESULT_COUNT)) enumerators"

section \<open>The diagnostic hook\<close>

text \<open>
  \<^verbatim>\<open>
  #ifdef RESULT_ASSERT
  #include <assert.h>
  #define RESULT_ASSERT_FAIL_FUNCTION() assert(0)
  #else
  #define RESULT_ASSERT_FAIL_FUNCTION()
  #endif
  \<close>
  What the hook does is fixed when the translation unit is compiled, by two
  preprocessor symbols: \<open>RESULT_ASSERT\<close>, tested by the header, and \<open>NDEBUG\<close>, tested
  by \<open>assert.h\<close>.
\<close>

record build =
  RESULT_ASSERT :: bool
  NDEBUG :: bool

text \<open>
  \<open>assert(e)\<close> of \<open>assert.h\<close>: nothing when \<open>NDEBUG\<close> is defined; otherwise, when
  \<open>e\<close> compares equal to \<open>0\<close>, it writes a diagnostic and calls \<open>abort\<close>, which does
  not return. The value is \<open>True\<close> when the program is aborted.
\<close>

definition assert_c :: "build \<Rightarrow> c_int \<Rightarrow> bool" where
  "assert_c b e = (if NDEBUG b then False else e = 0)"

definition RESULT_ASSERT_FAIL_FUNCTION :: "build \<Rightarrow> bool" where
  "RESULT_ASSERT_FAIL_FUNCTION b = (if RESULT_ASSERT b then assert_c b 0 else False)"

section \<open>Expressions, statements and transfer of control\<close>

text \<open>
  A macro argument is an expression of the caller: it is evaluated in the caller's
  state, yields a value and may change the state. A statement ends in one of five
  ways: control reaches the statement after it, jumps to a label of the enclosing
  function, leaves the enclosing function with or without a value, or the program is
  aborted.
\<close>

type_synonym ('s, 'a) expr = "'s \<Rightarrow> 'a \<times> 's"

datatype ('l, 'v) transfer =
    Fallthrough
  | Goto 'l
  | Return 'v
  | Return_void
  | Abort

type_synonym ('s, 'l, 'v) stmt = "'s \<Rightarrow> ('l, 'v) transfer \<times> 's"

text \<open>An expression without side effects, such as a constant or a variable read.\<close>

definition pure_expr :: "'a \<Rightarrow> ('s, 'a) expr" where
  "pure_expr v s = (v, s)"

text \<open>
  \<open>a; b\<close> in C: \<open>b\<close> runs only when control falls out of the end of \<open>a\<close>.
\<close>

definition seq :: "('s, 'l, 'v) stmt \<Rightarrow> ('s, 'l, 'v) stmt \<Rightarrow> ('s, 'l, 'v) stmt" where
  "seq a b s =
     (case a s of
        (Fallthrough, s1) \<Rightarrow> b s1
      | (t, s1) \<Rightarrow> (t, s1))"

section \<open>The guarded constructs\<close>

text \<open>
  Each macro is a \<open>do { ... } while (0)\<close> block: the body runs once, and the loop
  condition \<open>0\<close> ends the loop when control reaches the end of the body.

  \<^verbatim>\<open>
  #define ERR_GOTO(condition, goto_label)            \
      do {                                           \
          int _ERR_RET_CONDITION = (int)(condition); \
          if (_ERR_RET_CONDITION == 0) {             \
              RESULT_ASSERT_FAIL_FUNCTION();         \
              goto goto_label;                       \
          }                                          \
      } while (0)
  \<close>
  The argument \<open>condition\<close> below is the expression \<open>(int)(condition)\<close>: what the
  caller's condition evaluates to, converted to \<open>int\<close>.
\<close>

definition ERR_GOTO :: "build \<Rightarrow> ('s, c_int) expr \<Rightarrow> 'l \<Rightarrow> ('s, 'l, 'v) stmt" where
  "ERR_GOTO b condition goto_label s =
     (let (ERR_RET_CONDITION, s1) = condition s in
      if ERR_RET_CONDITION = 0 then
        if RESULT_ASSERT_FAIL_FUNCTION b then (Abort, s1)
        else (Goto goto_label, s1)
      else (Fallthrough, s1))"

text \<open>
  \<^verbatim>\<open>
  #define ERR_RET(condition, return_value)           \
      do {                                           \
          int _ERR_RET_CONDITION = (int)(condition); \
          if (_ERR_RET_CONDITION == 0) {             \
              RESULT_ASSERT_FAIL_FUNCTION();         \
              return (return_value);                 \
          }                                          \
      } while (0)
  \<close>
  \<open>return_value\<close> is an expression too, evaluated by the \<open>return\<close> statement only.
\<close>

definition ERR_RET ::
  "build \<Rightarrow> ('s, c_int) expr \<Rightarrow> ('s, 'v) expr \<Rightarrow> ('s, 'l, 'v) stmt" where
  "ERR_RET b condition return_value s =
     (let (ERR_RET_CONDITION, s1) = condition s in
      if ERR_RET_CONDITION = 0 then
        if RESULT_ASSERT_FAIL_FUNCTION b then (Abort, s1)
        else (let (v, s2) = return_value s1 in (Return v, s2))
      else (Fallthrough, s1))"

text \<open>
  \<^verbatim>\<open>
  #define ERR_RET_VOID(condition)                    \
      do {                                           \
          int _ERR_RET_CONDITION = (int)(condition); \
          if (_ERR_RET_CONDITION == 0) {             \
              RESULT_ASSERT_FAIL_FUNCTION();         \
              return;                                \
          }                                          \
      } while (0)
  \<close>
\<close>

definition ERR_RET_VOID :: "build \<Rightarrow> ('s, c_int) expr \<Rightarrow> ('s, 'l, 'v) stmt" where
  "ERR_RET_VOID b condition s =
     (let (ERR_RET_CONDITION, s1) = condition s in
      if ERR_RET_CONDITION = 0 then
        if RESULT_ASSERT_FAIL_FUNCTION b then (Abort, s1)
        else (Return_void, s1)
      else (Fallthrough, s1))"

text \<open>
  \<^verbatim>\<open>
  #define ERR_RET_RESULT(result)                     \
      do {                                           \
          result_t _ERR_RESULT = (result_t)(result); \
          if (_ERRRESULT != RESULT_OK) {             \
              RESULT_ASSERT_FAIL_FUNCTION();         \
              return _ERRRESULT;                     \
          }                                          \
      } while (0)
  \<close>
  The block declares \<open>_ERR_RESULT\<close> and then reads \<open>_ERRRESULT\<close>, another
  identifier. What the expansion means depends on the identifiers in scope where the
  macro is used: \<open>scope\<close> gives the value of each visible variable of type
  \<open>result_t\<close>. When \<open>_ERRRESULT\<close> is not among them, the expansion does not compile.
\<close>

datatype compile_error = Undeclared string

definition ERR_RET_RESULT ::
  "build \<Rightarrow> (string \<rightharpoonup> c_int) \<Rightarrow> ('s, c_int) expr \<Rightarrow> 's \<Rightarrow>
     compile_error + (('l, c_int) transfer \<times> 's)" where
  "ERR_RET_RESULT b scope result s =
     (let (ERR_RESULT, s1) = result s;
          scope1 = scope(''_ERR_RESULT'' \<mapsto> ERR_RESULT)
      in case scope1 ''_ERRRESULT'' of
           None \<Rightarrow> Inl (Undeclared ''_ERRRESULT'')
         | Some ERRRESULT \<Rightarrow>
             Inr (if ERRRESULT \<noteq> enum_value RESULT_OK then
                    if RESULT_ASSERT_FAIL_FUNCTION b then (Abort, s1)
                    else (Return ERRRESULT, s1)
                  else (Fallthrough, s1)))"

text \<open>
  Counting evaluations: \<open>counted e\<close> is the expression \<open>e\<close> on a state that also
  holds the number of times it has been evaluated; \<open>uncounted e\<close> is \<open>e\<close> on that
  state, leaving the number alone.
\<close>

definition counted :: "('s, 'a) expr \<Rightarrow> (nat \<times> 's, 'a) expr" where
  "counted e ns = (let (v, s1) = e (snd ns) in (v, (Suc (fst ns), s1)))"

definition uncounted :: "('s, 'a) expr \<Rightarrow> (nat \<times> 's, 'a) expr" where
  "uncounted e ns = (let (v, s1) = e (snd ns) in (v, (fst ns, s1)))"

section \<open>The description lookup\<close>

text \<open>
  \<^verbatim>\<open>
  /**
   * @brief Get C-String description of given result
   * @param[in] result the result to get description of
   * @return NULL if invalid result was provided
   * @return pointer to the C-String with result description
   */
  const char* result_get_string(result_t result);
  \<close>
  The header declares the function; no file of the sources defines it or the table
  of descriptions it reads.
\<close>

datatype fault = Out_of_bounds_read

text \<open>
  Modelled from the spec: the body of \<open>result_get_string\<close> and its table of
  descriptions, neither of which is in the sources. The specification (section 4.1)
  describes a pure function over a static table: for a value within the valid range,
  \<open>0\<close> up to the last real kind, the table's string for it; for any other value,
  the terminal marker included, the absent indicator (\<open>NULL\<close>, here \<open>None\<close>). The
  table's text is given nowhere, so the table is the parameter \<open>descriptions\<close>; a read
  past its end is the fault the specification forbids.
\<close>

definition result_get_string :: "string list \<Rightarrow> c_int \<Rightarrow> fault + string option" where
  "result_get_string descriptions result =
     (if sint result < 0 \<or> sint (enum_value RESULT_COUNT) \<le> sint result then Inr None
      else if nat (sint result) < length descriptions
        then Inr (Some (descriptions ! nat (sint result)))
      else Inl Out_of_bounds_read)"

text \<open>
  Modelled from the spec: a table of descriptions to run the lookup on, since the
  sources hold none. Its entries are the meanings that the specification's data model
  (section 3) gives the seven kinds, in the order of the enumeration.
\<close>

definition example_descriptions :: "string list" where
  "example_descriptions =
     [''operation succeeded'',
      ''a supplied argument failed validation'',
      ''allocation/resource exhaustion'',
      ''expected hardware/device did not appear'',
      ''hardware resource was busy'',
      ''a transmission/I/O fault occurred at the hardware boundary'',
      ''unclassified failure'']"

section \<open>Basic facts\<close>

lemma enum_values:
  "enum_value RESULT_OK = 0"
  "enum_value RESULT_ERROR_ARGUMENT_INVALID = 1"
  "enum_value RESULT_ERROR_MEMORY_NOT_ENOUGH = 2"
  "enum_value RESULT_ERROR_HARDWARE_NO_DEVICE = 3"
  "enum_value RESULT_ERROR_HARDWARE_BUSY = 4"
  "enum_value RESULT_ERROR_HARDWARE_IO = 5"
  "enum_value RESULT_ERROR_OTHER = 6"
  "enum_value RESULT_COUNT = 7"
  by (simp_all add: enum_value_def enumerators_def)

text \<open>The hook aborts exactly when \<open>RESULT_ASSERT\<close> is defined and \<open>NDEBUG\<close> is not.\<close>

lemma hook_active: "RESULT_ASSERT_FAIL_FUNCTION b = (RESULT_ASSERT b \<and> \<not> NDEBUG b)"
  by (simp add: RESULT_ASSERT_FAIL_FUNCTION_def assert_c_def)

lemma seq_Fallthrough: "fst (a s) = Fallthrough \<Longrightarrow> seq a rest s = rest (snd (a s))"
  by (cases "a s") (simp add: seq_def)

lemma seq_transfer: "fst (a s) \<noteq> Fallthrough \<Longrightarrow> seq a rest s = a s"
  by (cases "a s"; cases "fst (a s)") (simp_all add: seq_def)

section \<open>The enumeration\<close>

text \<open>
  C8. \<open>result_t\<close> has exactly eight enumerators: seven real outcome values and the
  terminal marker \<open>_RESULT_COUNT\<close>, whose value is their number. The eight values are
  \<open>0\<close> to \<open>7\<close>, pairwise different, so the failure kinds do not overlap, and
  \<open>RESULT_OK\<close> is the only enumerator with the value of success.
\<close>

theorem result_t_enumeration:
  "length enumerators = 8 \<and> distinct enumerators \<and> set enumerators = UNIV
   \<and> map enum_value enumerators = [0, 1, 2, 3, 4, 5, 6, 7]
   \<and> distinct (map enum_value enumerators)
   \<and> result_options =
       [RESULT_OK, RESULT_ERROR_ARGUMENT_INVALID, RESULT_ERROR_MEMORY_NOT_ENOUGH,
        RESULT_ERROR_HARDWARE_NO_DEVICE, RESULT_ERROR_HARDWARE_BUSY,
        RESULT_ERROR_HARDWARE_IO, RESULT_ERROR_OTHER]
   \<and> length result_options = 7
   \<and> filter (\<lambda>e. enum_value e = enum_value RESULT_OK) enumerators = [RESULT_OK]"
proof -
  have u: "set enumerators = UNIV"
  proof -
    have "e \<in> set enumerators" for e
      by (cases e) (simp_all add: enumerators_def)
    then show ?thesis by blast
  qed
  have v: "map enum_value enumerators = [0, 1, 2, 3, 4, 5, 6, 7]"
    by (simp add: enumerators_def enum_values)
  have o: "result_options =
       [RESULT_OK, RESULT_ERROR_ARGUMENT_INVALID, RESULT_ERROR_MEMORY_NOT_ENOUGH,
        RESULT_ERROR_HARDWARE_NO_DEVICE, RESULT_ERROR_HARDWARE_BUSY,
        RESULT_ERROR_HARDWARE_IO, RESULT_ERROR_OTHER]"
    by (simp add: result_options_def enum_values enumerators_def)
  have f: "filter (\<lambda>e. enum_value e = enum_value RESULT_OK) enumerators = [RESULT_OK]"
    by (simp add: enumerators_def enum_values)
  have d: "distinct (map enum_value enumerators)"
    unfolding v by simp
  have l: "length enumerators = 8"
    by (simp add: enumerators_def)
  have dd: "distinct enumerators"
    by (simp add: enumerators_def)
  have lo: "length result_options = 7"
    unfolding o by simp
  show ?thesis
    by (intro conjI l dd u v d o lo f)
qed

section \<open>The guarded constructs on a falsy condition\<close>

text \<open>
  C4, as the specification states it: for every condition that converts to \<open>0\<close>,
  \<open>ERR_GOTO\<close> transfers control to the given label. It does not in a build with
  \<open>RESULT_ASSERT\<close> defined and \<open>NDEBUG\<close> not: there \<open>ERR_GOTO(0, cleanup)\<close> stops
  in \<open>assert(0)\<close>, and the \<open>goto\<close> after it is never reached.
\<close>

theorem ERR_GOTO_falsy_counterexample:
  "fst (pure_expr 0 (0 :: nat)) = (0 :: c_int)
   \<and> ERR_GOTO \<lparr>RESULT_ASSERT = True, NDEBUG = False\<rparr> (pure_expr 0) ''cleanup'' (0 :: nat)
       = (Abort :: (string, unit) transfer, 0 :: nat)
   \<and> fst (ERR_GOTO \<lparr>RESULT_ASSERT = True, NDEBUG = False\<rparr> (pure_expr 0) ''cleanup'' (0 :: nat))
       \<noteq> (Goto ''cleanup'' :: (string, unit) transfer)"
  by (simp add: ERR_GOTO_def pure_expr_def hook_active)

text \<open>
  C4, amended: for every condition that converts to \<open>0\<close>, \<open>ERR_GOTO\<close> evaluates the
  condition and then, where the hook is inactive (\<open>RESULT_ASSERT\<close> undefined, the
  default, or \<open>NDEBUG\<close> defined), transfers control to exactly the given label; where
  the hook is active, \<open>assert(0)\<close> aborts the program before the \<open>goto\<close>. In both
  builds no statement after the construct is executed.
\<close>

theorem ERR_GOTO_falsy:
  assumes "fst (condition s) = 0"
  shows "ERR_GOTO b condition goto_label s =
           (if RESULT_ASSERT b \<and> \<not> NDEBUG b then Abort else Goto goto_label,
            snd (condition s))
         \<and> seq (ERR_GOTO b condition goto_label) rest s = ERR_GOTO b condition goto_label s"
proof -
  have e: "ERR_GOTO b condition goto_label s =
           (if RESULT_ASSERT b \<and> \<not> NDEBUG b then Abort else Goto goto_label,
            snd (condition s))"
    using assms by (cases "condition s") (simp add: ERR_GOTO_def hook_active)
  have "fst (ERR_GOTO b condition goto_label s) \<noteq> Fallthrough"
    unfolding e by simp
  then have "seq (ERR_GOTO b condition goto_label) rest s = ERR_GOTO b condition goto_label s"
    by (rule seq_transfer)
  with e show ?thesis by simp
qed

theorem ERR_GOTO_falsy_witness:
  "fst (pure_expr 0 (0 :: nat)) = (0 :: c_int)
   \<and> ERR_GOTO \<lparr>RESULT_ASSERT = False, NDEBUG = False\<rparr> (pure_expr 0) ''cleanup'' (0 :: nat)
       = (Goto ''cleanup'' :: (string, unit) transfer, 0 :: nat)
   \<and> seq (ERR_GOTO \<lparr>RESULT_ASSERT = False, NDEBUG = False\<rparr> (pure_expr 0) ''cleanup'') (ERR_RET_VOID \<lparr>RESULT_ASSERT = False, NDEBUG = False\<rparr> (pure_expr 0)) (0 :: nat)
       = (Goto ''cleanup'' :: (string, unit) transfer, 0 :: nat)"
proof -
  have h: "fst (pure_expr 0 (0 :: nat)) = (0 :: c_int)"
    by (simp add: pure_expr_def)
  note t = ERR_GOTO_falsy [where condition = "pure_expr 0" and s = "0 :: nat"
      and b = "\<lparr>RESULT_ASSERT = False, NDEBUG = False\<rparr>" and goto_label = "''cleanup''"
      and rest = "ERR_RET_VOID \<lparr>RESULT_ASSERT = False, NDEBUG = False\<rparr> (pure_expr 0) :: (nat, string, unit) stmt"]
  from t [OF h] h
  show ?thesis
    by (simp add: pure_expr_def seq_def ERR_GOTO_def ERR_RET_VOID_def hook_active)
qed

text \<open>
  C5, as the specification states it: for every condition that converts to \<open>0\<close>,
  \<open>ERR_RET\<close> makes the enclosing function return the given value. It does not in a
  build with \<open>RESULT_ASSERT\<close> defined and \<open>NDEBUG\<close> not: there
  \<open>ERR_RET(0, RESULT_ERROR_ARGUMENT_INVALID)\<close> stops in \<open>assert(0)\<close>, and the
  \<open>return\<close> after it is never reached.
\<close>

theorem ERR_RET_falsy_counterexample:
  "fst (pure_expr 0 (0 :: nat)) = (0 :: c_int)
   \<and> ERR_RET \<lparr>RESULT_ASSERT = True, NDEBUG = False\<rparr> (pure_expr 0) (pure_expr (enum_value RESULT_ERROR_ARGUMENT_INVALID)) (0 :: nat)
       = (Abort :: (string, c_int) transfer, 0 :: nat)
   \<and> fst (ERR_RET \<lparr>RESULT_ASSERT = True, NDEBUG = False\<rparr> (pure_expr 0) (pure_expr (enum_value RESULT_ERROR_ARGUMENT_INVALID))
         (0 :: nat))
       \<noteq> (Return (enum_value RESULT_ERROR_ARGUMENT_INVALID) :: (string, c_int) transfer)"
  by (simp add: ERR_RET_def pure_expr_def hook_active)

text \<open>
  C5, amended: for every condition that converts to \<open>0\<close>, \<open>ERR_RET\<close> evaluates the
  condition and then, where the hook is inactive (\<open>RESULT_ASSERT\<close> undefined, the
  default, or \<open>NDEBUG\<close> defined), evaluates the given fallback expression and makes
  the enclosing function return exactly its value; where the hook is active,
  \<open>assert(0)\<close> aborts the program before the \<open>return\<close>. In both builds no statement
  after the construct is executed.
\<close>

theorem ERR_RET_falsy:
  assumes "fst (condition s) = 0"
  shows "ERR_RET b condition return_value s =
           (if RESULT_ASSERT b \<and> \<not> NDEBUG b then (Abort, snd (condition s))
            else (Return (fst (return_value (snd (condition s)))),
                  snd (return_value (snd (condition s)))))
         \<and> seq (ERR_RET b condition return_value) rest s = ERR_RET b condition return_value s"
proof -
  have e: "ERR_RET b condition return_value s =
           (if RESULT_ASSERT b \<and> \<not> NDEBUG b then (Abort, snd (condition s))
            else (Return (fst (return_value (snd (condition s)))),
                  snd (return_value (snd (condition s)))))"
    using assms
    by (cases "condition s", cases "return_value (snd (condition s))")
      (simp add: ERR_RET_def hook_active)
  have "fst (ERR_RET b condition return_value s) \<noteq> Fallthrough"
    unfolding e by simp
  then have "seq (ERR_RET b condition return_value) rest s = ERR_RET b condition return_value s"
    by (rule seq_transfer)
  with e show ?thesis by simp
qed

theorem ERR_RET_falsy_witness:
  "fst (pure_expr 0 (0 :: nat)) = (0 :: c_int)
   \<and> ERR_RET \<lparr>RESULT_ASSERT = False, NDEBUG = False\<rparr> (pure_expr 0) (pure_expr (enum_value RESULT_ERROR_ARGUMENT_INVALID)) (0 :: nat)
       = (Return 1 :: (string, c_int) transfer, 0 :: nat)
   \<and> seq (ERR_RET \<lparr>RESULT_ASSERT = False, NDEBUG = False\<rparr> (pure_expr 0) (pure_expr (enum_value RESULT_ERROR_ARGUMENT_INVALID)))
         (ERR_GOTO \<lparr>RESULT_ASSERT = False, NDEBUG = False\<rparr> (pure_expr 0) ''cleanup'') (0 :: nat)
       = (Return 1 :: (string, c_int) transfer, 0 :: nat)"
proof -
  have h: "fst (pure_expr 0 (0 :: nat)) = (0 :: c_int)"
    by (simp add: pure_expr_def)
  note t = ERR_RET_falsy [where condition = "pure_expr 0" and s = "0 :: nat"
      and b = "\<lparr>RESULT_ASSERT = False, NDEBUG = False\<rparr>"
      and return_value = "pure_expr (enum_value RESULT_ERROR_ARGUMENT_INVALID)"
      and rest = "ERR_GOTO \<lparr>RESULT_ASSERT = False, NDEBUG = False\<rparr> (pure_expr 0) ''cleanup'' :: (nat, string, c_int) stmt"]
  from t [OF h] h
  show ?thesis
    by (simp add: pure_expr_def seq_def ERR_GOTO_def ERR_RET_def hook_active enum_values)
qed

section \<open>The guarded constructs on a truthy condition\<close>

text \<open>
  C6. For every condition that converts to a nonzero \<open>int\<close>, in every build, each of
  \<open>ERR_GOTO\<close>, \<open>ERR_RET\<close> and \<open>ERR_RET_VOID\<close> evaluates the condition and does
  nothing else: no jump, no return and no abort, and the statement that follows the
  construct runs next, in the state the condition left.
\<close>

theorem guarded_truthy:
  assumes "fst (condition s) \<noteq> 0"
  shows "ERR_GOTO b condition goto_label s = (Fallthrough, snd (condition s))
       \<and> ERR_RET b condition return_value s = (Fallthrough, snd (condition s))
       \<and> ERR_RET_VOID b condition s = (Fallthrough, snd (condition s))
       \<and> seq (ERR_GOTO b condition goto_label) rest1 s = rest1 (snd (condition s))
       \<and> seq (ERR_RET b condition return_value) rest2 s = rest2 (snd (condition s))
       \<and> seq (ERR_RET_VOID b condition) rest3 s = rest3 (snd (condition s))"
proof -
  have g: "ERR_GOTO b condition goto_label s = (Fallthrough, snd (condition s))"
    using assms by (cases "condition s") (simp add: ERR_GOTO_def)
  have r: "ERR_RET b condition return_value s = (Fallthrough, snd (condition s))"
    using assms by (cases "condition s") (simp add: ERR_RET_def)
  have v: "ERR_RET_VOID b condition s = (Fallthrough, snd (condition s))"
    using assms by (cases "condition s") (simp add: ERR_RET_VOID_def)
  have "seq (ERR_GOTO b condition goto_label) rest1 s = rest1 (snd (condition s))"
    using seq_Fallthrough [of "ERR_GOTO b condition goto_label" s rest1] by (simp add: g)
  moreover have "seq (ERR_RET b condition return_value) rest2 s = rest2 (snd (condition s))"
    using seq_Fallthrough [of "ERR_RET b condition return_value" s rest2] by (simp add: r)
  moreover have "seq (ERR_RET_VOID b condition) rest3 s = rest3 (snd (condition s))"
    using seq_Fallthrough [of "ERR_RET_VOID b condition" s rest3] by (simp add: v)
  ultimately show ?thesis
    using g r v by simp
qed

theorem guarded_truthy_witness:
  "fst (pure_expr 1 (0 :: nat)) \<noteq> (0 :: c_int)
   \<and> ERR_GOTO \<lparr>RESULT_ASSERT = True, NDEBUG = False\<rparr> (pure_expr 1) ''cleanup'' (0 :: nat)
       = (Fallthrough :: (string, c_int) transfer, 0 :: nat)
   \<and> ERR_RET \<lparr>RESULT_ASSERT = True, NDEBUG = False\<rparr> (pure_expr 1) (pure_expr 6) (0 :: nat)
       = (Fallthrough :: (string, c_int) transfer, 0 :: nat)
   \<and> ERR_RET_VOID \<lparr>RESULT_ASSERT = True, NDEBUG = False\<rparr> (pure_expr 1) (0 :: nat)
       = (Fallthrough :: (string, c_int) transfer, 0 :: nat)
   \<and> seq (ERR_GOTO \<lparr>RESULT_ASSERT = True, NDEBUG = False\<rparr> (pure_expr 1) ''cleanup'') (ERR_RET \<lparr>RESULT_ASSERT = True, NDEBUG = False\<rparr> (pure_expr 0) (pure_expr 6))
         (0 :: nat)
       = (Abort :: (string, c_int) transfer, 0 :: nat)
   \<and> seq (ERR_RET \<lparr>RESULT_ASSERT = True, NDEBUG = False\<rparr> (pure_expr 1) (pure_expr 6)) (ERR_GOTO \<lparr>RESULT_ASSERT = False, NDEBUG = False\<rparr> (pure_expr 0) ''cleanup'')
         (0 :: nat)
       = (Goto ''cleanup'' :: (string, c_int) transfer, 0 :: nat)
   \<and> seq (ERR_RET_VOID \<lparr>RESULT_ASSERT = True, NDEBUG = False\<rparr> (pure_expr 1)) (ERR_RET \<lparr>RESULT_ASSERT = False, NDEBUG = False\<rparr> (pure_expr 0) (pure_expr 6))
         (0 :: nat)
       = (Return 6 :: (string, c_int) transfer, 0 :: nat)"
proof -
  have h: "fst (pure_expr 1 (0 :: nat)) \<noteq> (0 :: c_int)"
    by (simp add: pure_expr_def)
  note t = guarded_truthy [where condition = "pure_expr 1" and s = "0 :: nat"
      and b = "\<lparr>RESULT_ASSERT = True, NDEBUG = False\<rparr>" and goto_label = "''cleanup''"
      and return_value = "pure_expr (6 :: c_int)"
      and ?rest1.0 = "ERR_RET \<lparr>RESULT_ASSERT = True, NDEBUG = False\<rparr> (pure_expr 0) (pure_expr 6) :: (nat, string, c_int) stmt"
      and ?rest2.0 = "ERR_GOTO \<lparr>RESULT_ASSERT = False, NDEBUG = False\<rparr> (pure_expr 0) ''cleanup'' :: (nat, string, c_int) stmt"
      and ?rest3.0 = "ERR_RET \<lparr>RESULT_ASSERT = False, NDEBUG = False\<rparr> (pure_expr 0) (pure_expr 6) :: (nat, string, c_int) stmt"]
  from t [OF h] h
  show ?thesis
    by (simp add: pure_expr_def seq_def ERR_GOTO_def ERR_RET_def ERR_RET_VOID_def hook_active)
qed

section \<open>How often and on what the constructs branch\<close>

text \<open>
  C9. Each of \<open>ERR_GOTO\<close>, \<open>ERR_RET\<close> and \<open>ERR_RET_VOID\<close> evaluates its condition
  expression exactly once, whatever the condition yields and whatever the build: with
  the evaluations of the condition counted in the state, the count after the construct
  is the count before it plus one.
\<close>

theorem guarded_condition_evaluated_once:
  "fst (snd (ERR_GOTO b (counted condition) goto_label (n, s))) = Suc n
   \<and> fst (snd (ERR_RET b (counted condition) (uncounted return_value) (n, s))) = Suc n
   \<and> fst (snd (ERR_RET_VOID b (counted condition) (n, s))) = Suc n"
  by (simp add: ERR_GOTO_def ERR_RET_def ERR_RET_VOID_def counted_def uncounted_def
      split: prod.splits)

text \<open>
  C10. In each of \<open>ERR_GOTO\<close>, \<open>ERR_RET\<close> and \<open>ERR_RET_VOID\<close> control leaves the
  normal path (the failure branch is taken) if and only if the condition, converted to
  \<open>int\<close>, is exactly \<open>0\<close>. Every other value lets execution continue, \<open>-1\<close> for
  one.
\<close>

theorem guarded_failure_iff_zero:
  "(fst (ERR_GOTO b condition goto_label s) \<noteq> Fallthrough) = (fst (condition s) = 0)
   \<and> (fst (ERR_RET b condition return_value s) \<noteq> Fallthrough) = (fst (condition s) = 0)
   \<and> (fst (ERR_RET_VOID b condition s) \<noteq> Fallthrough) = (fst (condition s) = 0)
   \<and> fst (ERR_GOTO b (pure_expr (- 1)) goto_label s) = Fallthrough
   \<and> fst (ERR_RET b (pure_expr (- 1)) return_value s) = Fallthrough
   \<and> fst (ERR_RET_VOID b (pure_expr (- 1)) s) = Fallthrough"
  by (simp add: ERR_GOTO_def ERR_RET_def ERR_RET_VOID_def pure_expr_def
      split: prod.splits)

section \<open>The result construct\<close>

text \<open>
  C3 says that \<open>ERR_RET_RESULT(r)\<close> returns \<open>r\<close> from the enclosing function when
  \<open>r\<close> is not \<open>RESULT_OK\<close>, as the macro's own documentation does. The expansion
  never reads the \<open>_ERR_RESULT\<close> it declares. With \<open>RESULT_ERROR_OTHER\<close> passed:
  where no \<open>_ERRRESULT\<close> is in scope, the expansion does not compile; where the
  caller has an \<open>_ERRRESULT\<close> holding \<open>RESULT_OK\<close>, execution continues and nothing is
  returned. With \<open>RESULT_OK\<close> passed, where the caller's \<open>_ERRRESULT\<close> holds
  \<open>RESULT_ERROR_HARDWARE_BUSY\<close>, the function returns that.
\<close>

theorem ERR_RET_RESULT_reads_ERRRESULT:
  "ERR_RET_RESULT \<lparr>RESULT_ASSERT = False, NDEBUG = False\<rparr> Map.empty (pure_expr (enum_value RESULT_ERROR_OTHER)) (0 :: nat)
     = (Inl (Undeclared ''_ERRRESULT'') :: compile_error + ((string, c_int) transfer \<times> nat))
   \<and> ERR_RET_RESULT \<lparr>RESULT_ASSERT = False, NDEBUG = False\<rparr> [''_ERRRESULT'' \<mapsto> enum_value RESULT_OK]
       (pure_expr (enum_value RESULT_ERROR_OTHER)) (0 :: nat)
     = (Inr (Fallthrough, 0) :: compile_error + ((string, c_int) transfer \<times> nat))
   \<and> ERR_RET_RESULT \<lparr>RESULT_ASSERT = False, NDEBUG = False\<rparr> [''_ERRRESULT'' \<mapsto> enum_value RESULT_ERROR_HARDWARE_BUSY]
       (pure_expr (enum_value RESULT_OK)) (0 :: nat)
     = (Inr (Return (enum_value RESULT_ERROR_HARDWARE_BUSY), 0)
         :: compile_error + ((string, c_int) transfer \<times> nat))"
  by (simp add: ERR_RET_RESULT_def pure_expr_def enum_values hook_active)

section \<open>The description lookup on its table\<close>

text \<open>
  C2. For the terminal marker \<open>_RESULT_COUNT\<close> and for every other \<open>int\<close> outside
  the valid range, below \<open>RESULT_OK\<close> or above \<open>RESULT_ERROR_OTHER\<close>,
  \<open>result_get_string\<close> returns \<open>NULL\<close>, whatever the table holds: it reads nothing
  of the table, so no read is out of bounds, and it returns no description.
\<close>

theorem result_get_string_invalid:
  assumes "sint r < sint (enum_value RESULT_OK) \<or> sint (enum_value RESULT_ERROR_OTHER) < sint r"
  shows "result_get_string descriptions r = Inr None"
  using assms by (auto simp add: result_get_string_def enum_values)

theorem result_get_string_invalid_witness:
  "sint (enum_value RESULT_ERROR_OTHER) < sint (enum_value RESULT_COUNT)
   \<and> result_get_string example_descriptions (enum_value RESULT_COUNT) = Inr None
   \<and> sint (- 1 :: c_int) < sint (enum_value RESULT_OK)
   \<and> result_get_string [] (- 1) = Inr None"
proof -
  have h1: "sint (enum_value RESULT_ERROR_OTHER) < sint (enum_value RESULT_COUNT)"
    by (simp add: enum_values)
  have h2: "sint (- 1 :: c_int) < sint (enum_value RESULT_OK)"
    by (simp add: enum_values)
  note a = result_get_string_invalid [where r = "enum_value RESULT_COUNT"
      and descriptions = example_descriptions, OF disjI2, OF h1]
  note b = result_get_string_invalid [where r = "- 1" and descriptions = "[]", OF disjI1, OF h2]
  from a b h1 h2 show ?thesis by simp
qed

end
